theory Spec2Isabelle
  imports Main "HOL-Library.AList"
begin

section \<open>Data model\<close>

text \<open>
  A JavaScript object with string keys is an association list in insertion order
  (\<open>Object.entries\<close>, \<open>Object.values\<close> enumerate it that way); an absent key is
  \<open>undefined\<close>. \<open>FiltersProps\<close> is the shape of both \<open>filters\<close> (every value a
  category offers) and \<open>activeFilters\<close> (the values selected) of the store.
\<close>

type_synonym FiltersProps = "(string \<times> string list) list"

text \<open>
  \<open>ProjectInterface\<close> (declared in \<open>@/lib/types\<close>, used by \<open>ProjectCard\<close>: line 99
  destructures \<open>id, image, links, name, tldr, tags\<close>). The optional members are those
  the card guards with \<open>?.\<close>, \<open>??\<close> or a conditional.
\<close>

record ProjectInterface =
  id' :: string
  image' :: "string option"
  name :: string
  tldr :: string
  tags :: "FiltersProps option"
  links :: "(string \<times> string) list option"

text \<open>The errors that rendering can throw: the \<open>TypeError\<close> of JavaScript (here:
  destructuring \<open>undefined\<close>), and React's error for an object given as a child
  ("Objects are not valid as a React child").\<close>

datatype js_error = TypeError | InvalidChild

text \<open>
  Reading a property of an object literal by a string key: the literal's own property,
  or, for a key the literal does not have, what it inherits from \<open>Object.prototype\<close>:
  the prototype object itself for \<open>__proto__\<close>, a function for the names of the
  prototype's methods, and \<open>undefined\<close> for every other key.
\<close>

datatype 'a js_property = Own 'a | InheritedFunction | InheritedObject | Undefined

definition objectPrototypeFunctions :: "string list" where
  "objectPrototypeFunctions =
     [''constructor'', ''hasOwnProperty'', ''isPrototypeOf'', ''propertyIsEnumerable'',
      ''toLocaleString'', ''toString'', ''valueOf'', ''__defineGetter__'',
      ''__defineSetter__'', ''__lookupGetter__'', ''__lookupSetter__'']"

definition getProperty :: "(string \<times> 'a) list \<Rightarrow> string \<Rightarrow> 'a js_property" where
  "getProperty obj key =
     (case map_of obj key of
        Some v \<Rightarrow> Own v
      | None \<Rightarrow>
          if key = ''__proto__'' then InheritedObject
          else if key \<in> set objectPrototypeFunctions then InheritedFunction
          else Undefined)"

text \<open>\<open>activeFilters?.[key] ?? []\<close>: the selected values of a category, none when the
  category is absent.\<close>

definition selected :: "FiltersProps \<Rightarrow> string \<Rightarrow> string list" where
  "selected af cat = (case map_of af cat of None \<Rightarrow> [] | Some vs \<Rightarrow> vs)"

section \<open>The project card (project-card.tsx)\<close>

record ThemeButton =
  label :: string
  icon :: string

text \<open>\<open>ThemesButtonMapping\<close> (lines 192-211) and \<open>TagsIconMapping\<close> (lines 69-73); a
  JSX icon element is written as the name of its icon.\<close>

definition ThemesButtonEntries :: "(string \<times> ThemeButton) list" where
  "ThemesButtonEntries =
     [(''build'', \<lparr>label = ''Build'', icon = ''hammer''\<rparr>),
      (''play'', \<lparr>label = ''Play'', icon = ''hand''\<rparr>),
      (''research'', \<lparr>label = ''Research'', icon = ''readme''\<rparr>)]"

definition ThemesButtonMapping :: "string \<Rightarrow> ThemeButton js_property" where
  "ThemesButtonMapping = getProperty ThemesButtonEntries"

definition TagsIconMapping :: "string \<Rightarrow> string js_property" where
  "TagsIconMapping =
     getProperty [(''build'', ''hammer''), (''play'', ''hand''), (''research'', ''readme'')]"

record CategoryTag =
  tagIcon :: "string option"
  tagText :: string

text \<open>
  The callback of \<open>tags?.themes?.map\<close> (lines 118-130).
  \<open>const { label } = ThemesButtonMapping?.[theme]\<close> destructures the looked-up entry: the
  optional chaining guards the mapping object, not the entry, so for a key whose lookup
  is \<open>undefined\<close> the destructuring throws a \<open>TypeError\<close>. An entry of the mapping
  has a \<open>label\<close>; an inherited function or object has none, and \<open>label ?? theme\<close> is
  the theme. The child \<open>{icon}\<close> is \<open>TagsIconMapping?.[theme]\<close>: React renders nothing
  for \<open>undefined\<close> and for a function, and throws for an object.
\<close>

definition iconChild :: "string js_property \<Rightarrow> string \<Rightarrow> js_error + CategoryTag" where
  "iconChild ic txt =
     (case ic of
        Own i \<Rightarrow> Inr \<lparr>tagIcon = Some i, tagText = txt\<rparr>
      | InheritedFunction \<Rightarrow> Inr \<lparr>tagIcon = None, tagText = txt\<rparr>
      | InheritedObject \<Rightarrow> Inl InvalidChild
      | Undefined \<Rightarrow> Inr \<lparr>tagIcon = None, tagText = txt\<rparr>)"

definition themeTag :: "string \<Rightarrow> js_error + CategoryTag" where
  "themeTag theme =
     (case ThemesButtonMapping theme of
        Own entry \<Rightarrow> iconChild (TagsIconMapping theme) (label entry)
      | InheritedFunction \<Rightarrow> iconChild (TagsIconMapping theme) theme
      | InheritedObject \<Rightarrow> iconChild (TagsIconMapping theme) theme
      | Undefined \<Rightarrow> Inl TypeError)"

text \<open>\<open>Array.prototype.map\<close> with a callback that may throw: the first exception ends
  the whole rendering.\<close>

fun mapThrowing :: "('a \<Rightarrow> js_error + 'b) \<Rightarrow> 'a list \<Rightarrow> js_error + 'b list" where
  "mapThrowing f [] = Inr []"
| "mapThrowing f (x # xs) =
     (case f x of
        Inl e \<Rightarrow> Inl e
      | Inr y \<Rightarrow> (case mapThrowing f xs of Inl e \<Rightarrow> Inl e | Inr ys \<Rightarrow> Inr (y # ys)))"

record Card =
  banner :: "string option"
  themeTags :: "CategoryTag list"
  title :: string
  summary :: string
  linkItems :: "(string \<times> string) list"

text \<open>\<open>ProjectCard\<close> (lines 90-151): what the card shows, or the exception that
  rendering it throws.\<close>

definition ProjectCard :: "ProjectInterface \<Rightarrow> bool \<Rightarrow> bool \<Rightarrow> js_error + Card" where
  "ProjectCard project showLinks showBanner =
     (case mapThrowing themeTag
             (case tags project of
                None \<Rightarrow> []
              | Some t \<Rightarrow> (case map_of t ''themes'' of None \<Rightarrow> [] | Some themes \<Rightarrow> themes)) of
        Inl e \<Rightarrow> Inl e
      | Inr ts \<Rightarrow>
          Inr \<lparr>banner =
                 (if showBanner
                  then Some (''/project-banners/'' @
                        (case image' project of
                           None \<Rightarrow> ''fallback.webp''
                         | Some i \<Rightarrow> if i = [] then ''fallback.webp'' else i))
                  else None),
               themeTags = ts,
               title = name project,
               summary = tldr project,
               linkItems =
                 (if showLinks then (case links project of None \<Rightarrow> [] | Some l \<Rightarrow> l)
                  else [])\<rparr>)"

section \<open>The filter bar (project-filters-bar.tsx)\<close>

subsection \<open>What the component imports\<close>

text \<open>The state of the store \<open>useProjectFiltersState\<close>, as the component reads and
  sets it (lines 273-274, 283-285, 296-300).\<close>

record ProjectState =
  projects :: "ProjectInterface list"
  queryString :: string
  filters :: FiltersProps
  activeFilters :: FiltersProps

text \<open>
  The modules the component imports and this development does not have the source of:
  the store's actions and the tables \<open>FilterTypeMapping\<close> and \<open>FilterLabelMapping\<close>
  (\<open>@/state/useProjectFiltersState\<close>), \<open>queryStringToObject\<close> (\<open>@/lib/utils\<close>) and
  the catalog \<open>projects\<close> (\<open>@/data/projects\<close>). They are parameters of the
  component's model: what is proved of the component holds for every implementation
  of them. A table gives \<open>None\<close> where the component's comparisons and \<open>??\<close> see no
  value.
\<close>

datatype FilterType = Checkbox | Button

record Imports =
  toggleFilter :: "string \<Rightarrow> string \<Rightarrow> string \<Rightarrow> ProjectState \<Rightarrow> ProjectState"
  onSelectTheme :: "string \<Rightarrow> string \<Rightarrow> ProjectState \<Rightarrow> ProjectState"
  onFilterProject :: "string \<Rightarrow> ProjectState \<Rightarrow> ProjectState"
  queryStringToObject :: "string \<Rightarrow> FiltersProps"
  projectsData :: "ProjectInterface list"
  FilterTypeMapping :: "string \<Rightarrow> FilterType option"
  FilterLabelMapping :: "string \<Rightarrow> string option"

subsection \<open>The component's state\<close>

text \<open>What an observer of the search box sees: the pending search text changed (the
  debounce timer was armed for it), or \<open>onFilterProject\<close> was invoked; each with the time
  in milliseconds since the component was mounted.\<close>

datatype obs = Pending nat string | Fired nat string

text \<open>
  The \<open>useState\<close> cells of \<open>ProjectFiltersBar\<close> (lines 267-271), the store it is
  subscribed to, and its environment: the URLs given to \<open>router.push\<close>, the clock, the
  timeout that \<open>useDebounce\<close> holds (the milliseconds left before it fires) and the
  observations made so far.
\<close>

record FiltersBar =
  store :: ProjectState
  showModal :: bool
  searchQuery :: string
  filterCount :: nat
  history :: "string list"
  clock :: nat
  timer :: "nat option"
  trace :: "obs list"

subsection \<open>Effects\<close>

text \<open>Lines 276-279: \<open>if (!queryString) return; router.push(`/projects?${queryString}`)\<close>.\<close>

definition urlEffect :: "FiltersBar \<Rightarrow> FiltersBar" where
  "urlEffect c =
     (if queryString (store c) = [] then c
      else c\<lparr>history := history c @ [''/projects?'' @ queryString (store c)]\<rparr>)"

text \<open>Lines 281-286: \<open>setState\<close> of the store merges the object it is given into the
  state, so only \<open>activeFilters\<close> is replaced.\<close>

definition hydrateEffect :: "Imports \<Rightarrow> string \<Rightarrow> FiltersBar \<Rightarrow> FiltersBar" where
  "hydrateEffect env searchParams c =
     c\<lparr>store := (store c)\<lparr>activeFilters := queryStringToObject env searchParams\<rparr>\<rparr>"

text \<open>Lines 288-293: \<open>Object.values(activeFilters).reduce((acc, curr) => acc + curr.length, 0)\<close>,
  given the \<open>activeFilters\<close> of the render the effect belongs to.\<close>

definition countFilters :: "FiltersProps \<Rightarrow> nat" where
  "countFilters af = foldl (\<lambda>acc curr. acc + length curr) 0 (map snd af)"

definition countEffect :: "FiltersProps \<Rightarrow> FiltersBar \<Rightarrow> FiltersBar" where
  "countEffect af c = c\<lparr>filterCount := countFilters af\<rparr>"

text \<open>Lines 305-311:
  \<open>useDebounce(() => onFilterProject(searchQuery), 500, [searchQuery])\<close>.\<close>

text \<open>Modelled from the spec: the hook \<open>useDebounce\<close> (package \<open>react-use\<close>) is not
  among the sources; section 5 of the specification describes it: a timer is armed on
  each change of the dependency, a pending one being cancelled and armed anew, and the
  callback runs after 500 ms without a change. This is the arming; \<open>elapse\<close> below is
  the firing.\<close>

definition debounceEffect :: "FiltersBar \<Rightarrow> FiltersBar" where
  "debounceEffect c =
     c\<lparr>timer := Some 500, trace := trace c @ [Pending (clock c) (searchQuery c)]\<rparr>"

text \<open>After a render React runs the effects whose dependencies differ from those of
  the render before (\<open>old\<close>); the effect of lines 281-286 has no dependency and never
  runs again. Dependencies are compared as values here: the store is taken to hold a
  new \<open>activeFilters\<close> object exactly when the selections changed.\<close>

definition effects :: "FiltersBar \<Rightarrow> FiltersBar \<Rightarrow> FiltersBar" where
  "effects old new =
     (let c1 = (if queryString (store new) \<noteq> queryString (store old) then urlEffect new
                else new);
          c2 = (if activeFilters (store new) \<noteq> activeFilters (store old)
                then countEffect (activeFilters (store new)) c1 else c1)
      in if searchQuery new \<noteq> searchQuery old then debounceEffect c2 else c2)"

subsection \<open>Mounting\<close>

text \<open>
  The first render sees the initial values of the \<open>useState\<close> cells and the store as it
  is; then every effect runs once, each with the values of that render. The store was
  set by the second effect, so the component renders again and the effects depending
  on what changed run again. \<open>mount\<close> is the mount whose renders succeed; \<open>mountE\<close>
  below has the renders and what they may throw.
\<close>

definition initialBar :: "ProjectState \<Rightarrow> FiltersBar" where
  "initialBar s =
     \<lparr>store = s, showModal = False, searchQuery = [], filterCount = 0, history = [],
      clock = 0, timer = None, trace = []\<rparr>"

definition mount :: "Imports \<Rightarrow> string \<Rightarrow> ProjectState \<Rightarrow> FiltersBar" where
  "mount env searchParams s =
     (let c0 = initialBar s;
          c1 = debounceEffect
                 (countEffect (activeFilters s) (hydrateEffect env searchParams (urlEffect c0)))
      in effects c0 c1)"

subsection \<open>Event handlers\<close>

text \<open>Line 312.\<close>

definition hasActiveFilters :: "FiltersBar \<Rightarrow> bool" where
  "hasActiveFilters c = (filterCount c > 0 \<or> length (searchQuery c) > 0)"

text \<open>Lines 321 and 449: both "Clear all" controls have \<open>disabled={!hasActiveFilters}\<close>.\<close>

definition clearAllDisabled :: "FiltersBar \<Rightarrow> bool" where
  "clearAllDisabled c = (\<not> hasActiveFilters c)"

text \<open>Lines 295-303.\<close>

definition clearAllFilters :: "Imports \<Rightarrow> FiltersBar \<Rightarrow> FiltersBar" where
  "clearAllFilters env c =
     c\<lparr>store := (store c)\<lparr>activeFilters := [], queryString := [],
                           projects := projectsData env\<rparr>,
       searchQuery := [],
       history := history c @ [''/projects'']\<rparr>"

text \<open>
  The events of the component: a click on a theme button (\<open>FilterButtons\<close>, lines 251-253;
  line 424 gives \<open>FilterButtons\<close> no \<open>searchQuery\<close>, so \<open>searchQuery ?? ""\<close> is the
  empty string), on a checkbox of the modal (lines 370-376), on the close button of a
  selected theme (lines 392-398), a change of the search box (lines 427-429), a click
  on "Clear all" (lines 324 and 450), opening or closing the modal (lines 332, 340,
  436), and time passing.
\<close>

datatype event =
    ClickTheme string
  | ClickCheckbox string string
  | CloseTheme string
  | ChangeInput string
  | ClickClearAll
  | SetShowModal bool
  | Elapse nat

text \<open>When the timeout is due within the time that passes, its callback
  \<open>onFilterProject(searchQuery)\<close> runs at the moment it is due.\<close>

definition elapse :: "Imports \<Rightarrow> nat \<Rightarrow> FiltersBar \<Rightarrow> FiltersBar" where
  "elapse env d c =
     (case timer c of
        None \<Rightarrow> c\<lparr>clock := clock c + d\<rparr>
      | Some r \<Rightarrow>
          if d < r then c\<lparr>clock := clock c + d, timer := Some (r - d)\<rparr>
          else c\<lparr>store := onFilterProject env (searchQuery c) (store c),
                 clock := clock c + d,
                 timer := None,
                 trace := trace c @ [Fired (clock c + r) (searchQuery c)]\<rparr>)"

fun handle :: "Imports \<Rightarrow> event \<Rightarrow> FiltersBar \<Rightarrow> FiltersBar" where
  "handle env (ClickTheme key) c = c\<lparr>store := onSelectTheme env key [] (store c)\<rparr>"
| "handle env (ClickCheckbox tag item) c =
     c\<lparr>store := toggleFilter env tag item (searchQuery c) (store c)\<rparr>"
| "handle env (CloseTheme item) c =
     c\<lparr>store := toggleFilter env ''themes'' item (searchQuery c) (store c)\<rparr>"
| "handle env (ChangeInput v) c = c\<lparr>searchQuery := v\<rparr>"
| "handle env ClickClearAll c = (if clearAllDisabled c then c else clearAllFilters env c)"
| "handle env (SetShowModal b) c = c\<lparr>showModal := b\<rparr>"
| "handle env (Elapse d) c = elapse env d c"

text \<open>One event whose render succeeds: its handler, then the effects of the render it
  causes. \<open>stepE\<close> below is the event with the render and what the render may throw.\<close>

definition step :: "Imports \<Rightarrow> event \<Rightarrow> FiltersBar \<Rightarrow> FiltersBar" where
  "step env e c = effects c (handle env e c)"

fun run :: "Imports \<Rightarrow> event list \<Rightarrow> FiltersBar \<Rightarrow> FiltersBar" where
  "run env [] c = c"
| "run env (e # es) c = run env es (step env e c)"

subsection \<open>Rendering\<close>

text \<open>
  What the render of the component can throw lies in the children of the modal (lines
  342-417), which are computed in every render, open or not. For an item of a category
  of type "button", line 385 destructures \<open>ThemesButtonMapping[item]\<close> before it looks
  at \<open>isActive\<close>: for an item whose lookup is \<open>undefined\<close> this throws a \<open>TypeError\<close>.
  An inherited function or object has neither \<open>icon\<close> nor \<open>label\<close>.
\<close>

datatype ModalItem = CheckboxItem string bool | SelectedTag "string option" "string option"

definition modalItem ::
  "FilterType option \<Rightarrow> bool \<Rightarrow> string \<Rightarrow> js_error + ModalItem option" where
  "modalItem ftype isActive item =
     (case ftype of
        Some Checkbox \<Rightarrow> Inr (Some (CheckboxItem item isActive))
      | Some Button \<Rightarrow>
          (case ThemesButtonMapping item of
             Undefined \<Rightarrow> Inl TypeError
           | Own entry \<Rightarrow>
               if \<not> isActive then Inr None
               else Inr (Some (SelectedTag (Some (icon entry)) (Some (label entry))))
           | InheritedFunction \<Rightarrow>
               if \<not> isActive then Inr None else Inr (Some (SelectedTag None None))
           | InheritedObject \<Rightarrow>
               if \<not> isActive then Inr None else Inr (Some (SelectedTag None None)))
      | None \<Rightarrow> Inr None)"

record ModalSection =
  sectionLabel :: string
  sectionItems :: "ModalItem option list"

text \<open>The callback of \<open>Object.entries(filters).map\<close> (lines 342-417): \<open>None\<close> where it
  returns \<open>null\<close> or \<open>false\<close>.\<close>

definition modalSection ::
  "Imports \<Rightarrow> FiltersProps \<Rightarrow> string \<times> string list \<Rightarrow> js_error + ModalSection option" where
  "modalSection env af entry =
     (let key = fst entry; items = snd entry;
          filterLabel = (case FilterLabelMapping env key of None \<Rightarrow> [] | Some l \<Rightarrow> l);
          ftype = FilterTypeMapping env key;
          hasItems = (length items > 0);
          hasActiveThemeFilters = (length (selected af ''themes'') > 0)
      in if key = ''themes'' \<and> \<not> hasActiveThemeFilters then Inr None
         else if \<not> hasItems then Inr None
         else (case mapThrowing (\<lambda>item. modalItem ftype (item \<in> set (selected af key)) item)
                      items of
                 Inl e \<Rightarrow> Inl e
               | Inr views \<Rightarrow> Inr (Some \<lparr>sectionLabel = filterLabel, sectionItems = views\<rparr>)))"

definition render :: "Imports \<Rightarrow> FiltersBar \<Rightarrow> js_error + ModalSection option list" where
  "render env c =
     mapThrowing (modalSection env (activeFilters (store c))) (filters (store c))"

text \<open>
  The render that follows a state change, and then its effects. When the render throws,
  React unmounts the component: no effect of that render runs, and what is left is
  the error and the state the render saw (of which the store and the pushed URLs
  outlive the component). The effects change nothing that \<open>render\<close> reads, so the
  render they cause succeeds as the one before them did.
\<close>

definition commit ::
  "Imports \<Rightarrow> FiltersBar \<Rightarrow> FiltersBar \<Rightarrow> (js_error \<times> FiltersBar) + FiltersBar" where
  "commit env old new =
     (case render env new of Inl e \<Rightarrow> Inl (e, new) | Inr view \<Rightarrow> Inr (effects old new))"

text \<open>One event, with the render it causes.\<close>

definition stepE ::
  "Imports \<Rightarrow> event \<Rightarrow> FiltersBar \<Rightarrow> (js_error \<times> FiltersBar) + FiltersBar" where
  "stepE env e c = commit env c (handle env e c)"


text \<open>Mounting, with its two renders: the first one, before any effect, and the one
  after the effects of the first commit have set the store.\<close>

definition mountE ::
  "Imports \<Rightarrow> string \<Rightarrow> ProjectState \<Rightarrow> (js_error \<times> FiltersBar) + FiltersBar" where
  "mountE env searchParams s =
     (let c0 = initialBar s
      in case render env c0 of
           Inl e \<Rightarrow> Inl (e, c0)
         | Inr view \<Rightarrow>
             commit env c0
               (debounceEffect
                  (countEffect (activeFilters s)
                     (hydrateEffect env searchParams (urlEffect c0)))))"

text \<open>The clear-all action by itself, enabled or not: \<open>clearAllFilters\<close> and the render
  that follows it.\<close>

definition clearAll :: "Imports \<Rightarrow> FiltersBar \<Rightarrow> FiltersBar" where
  "clearAll env c = effects c (clearAllFilters env c)"

subsection \<open>Observations of a debounced callback\<close>





section \<open>The store and the query string, from the specification\<close>

text \<open>
  \<open>@/state/useProjectFiltersState\<close> and \<open>@/lib/utils\<close> are not among the sources. The
  definitions of this section follow the specification's words (sections 3, 4.1, 6
  and 7) for what they do.
\<close>

subsection \<open>Filtering\<close>

text \<open>Modelled from the spec: the case-insensitive comparison of the missing filtering
  function; letters outside ASCII are left as they are.\<close>

definition toLowerChar :: "char \<Rightarrow> char" where
  "toLowerChar ch =
     (let n = (of_char ch :: nat) in if 65 \<le> n \<and> n \<le> 90 then char_of (n + 32) else ch)"

definition toLowerCase :: "string \<Rightarrow> string" where
  "toLowerCase s = map toLowerChar s"

fun startsWith :: "string \<Rightarrow> string \<Rightarrow> bool" where
  "startsWith s [] = True"
| "startsWith [] (y # t) = False"
| "startsWith (x # s) (y # t) = (x = y \<and> startsWith s t)"

text \<open>Modelled from the spec: "appears as a substring", searched from every position
  of the text.\<close>

fun includesStr :: "string \<Rightarrow> string \<Rightarrow> bool" where
  "includesStr [] t = (t = [])"
| "includesStr (x # s) t = (startsWith (x # s) t \<or> includesStr s t)"

text \<open>The tag set of a project for a category; a project without tags, or without the
  category, has none.\<close>

definition tagsOf :: "ProjectInterface \<Rightarrow> string \<Rightarrow> string list" where
  "tagsOf p cat =
     (case tags p of
        None \<Rightarrow> []
      | Some t \<Rightarrow> (case map_of t cat of None \<Rightarrow> [] | Some vs \<Rightarrow> vs))"

text \<open>Modelled from the spec: the filtering algorithm of the missing store (section
  4.1): for every category with at least one selected value the project's tags of the
  category meet the selected values.\<close>

definition matchesFilters :: "ProjectInterface \<Rightarrow> FiltersProps \<Rightarrow> bool" where
  "matchesFilters p af =
     list_all (\<lambda>(cat, sel). sel = [] \<or> list_ex (\<lambda>v. v \<in> set sel) (tagsOf p cat)) af"

text \<open>Modelled from the spec: the free-text term of the missing store, when it is not
  empty, is a case-insensitive substring of the name or of the summary.\<close>

definition matchesSearch :: "ProjectInterface \<Rightarrow> string \<Rightarrow> bool" where
  "matchesSearch p t =
     (t = [] \<or> includesStr (toLowerCase (name p)) (toLowerCase t)
             \<or> includesStr (toLowerCase (tldr p)) (toLowerCase t))"

definition filterProjects ::
  "ProjectInterface list \<Rightarrow> FiltersProps \<Rightarrow> string \<Rightarrow> ProjectInterface list" where
  "filterProjects catalog af t =
     filter (\<lambda>p. matchesFilters p af \<and> matchesSearch p t) catalog"

subsection \<open>The query string\<close>

fun join :: "char \<Rightarrow> string list \<Rightarrow> string" where
  "join sep [] = []"
| "join sep [x] = x"
| "join sep (x # y # ys) = x @ sep # join sep (y # ys)"

text \<open>Splitting at every separator; the empty string splits into one empty piece.\<close>

fun split :: "char \<Rightarrow> string \<Rightarrow> string list" where
  "split sep [] = [[]]"
| "split sep (x # xs) =
     (if x = sep then [] # split sep xs
      else (case split sep xs of [] \<Rightarrow> [[x]] | w # ws \<Rightarrow> (x # w) # ws))"

text \<open>Splitting at the first separator; \<open>None\<close> when there is none.\<close>

fun breakAt :: "char \<Rightarrow> string \<Rightarrow> (string \<times> string) option" where
  "breakAt sep [] = None"
| "breakAt sep (x # xs) =
     (if x = sep then Some ([], xs)
      else (case breakAt sep xs of None \<Rightarrow> None | Some (k, v) \<Rightarrow> Some (x # k, v)))"

text \<open>Modelled from the spec: the missing encoder of the store (section 6): the
  category name as key, its selected values joined by commas (of the two schemes the
  section allows), the categories in the order of the selection state; a category with
  no selected value has no pair to encode. Names are written as they are, without
  escaping.\<close>

definition encodeParam :: "string \<times> string list \<Rightarrow> string" where
  "encodeParam kv = fst kv @ CHR ''='' # join CHR '','' (snd kv)"

definition encode :: "FiltersProps \<Rightarrow> string" where
  "encode af = join CHR ''&'' (map encodeParam (filter (\<lambda>kv. snd kv \<noteq> []) af))"

text \<open>Modelled from the spec: the missing decoder \<open>queryStringToObject\<close> (sections 6
  and 7): a parameter that is malformed, names no category of the configuration or
  carries no value of the category is ignored, and so is a value the category does
  not have.\<close>

definition decodeParam :: "FiltersProps \<Rightarrow> string \<Rightarrow> (string \<times> string list) option" where
  "decodeParam cfg p =
     (case breakAt CHR ''='' p of
        None \<Rightarrow> None
      | Some (k, v) \<Rightarrow>
          (case map_of cfg k of
             None \<Rightarrow> None
           | Some valid \<Rightarrow>
               (case filter (\<lambda>x. x \<in> set valid) (split CHR '','' v) of
                  [] \<Rightarrow> None
                | w # ws \<Rightarrow> Some (k, w # ws))))"

definition decode :: "FiltersProps \<Rightarrow> string \<Rightarrow> FiltersProps" where
  "decode cfg qs =
     foldl (\<lambda>acc p. case decodeParam cfg p of
                       None \<Rightarrow> acc
                     | Some (k, vs) \<Rightarrow> AList.update k vs acc)
       [] (split CHR ''&'' qs)"

subsection \<open>Selections\<close>

text \<open>The selection state as the specification's data model has it (section 3): a
  mapping from the category name to the set of its selected values.\<close>

definition selection :: "FiltersProps \<Rightarrow> string \<Rightarrow> string set" where
  "selection af cat = set (selected af cat)"

subsection \<open>The store's actions\<close>

definition toggleValue :: "string \<Rightarrow> string list \<Rightarrow> string list" where
  "toggleValue v vs = (if v \<in> set vs then removeAll v vs else vs @ [v])"

text \<open>Modelled from the spec: the missing action \<open>toggleFilter\<close> of the store (section
  4.1): it flips the membership of the value in the category's selection, recomputes
  the filtered projects from the catalog with the new selections and the search text,
  and recomputes the query string; an unknown category or value is ignored.\<close>

definition storeToggleFilter ::
  "ProjectInterface list \<Rightarrow> string \<Rightarrow> string \<Rightarrow> string \<Rightarrow> ProjectState \<Rightarrow> ProjectState" where
  "storeToggleFilter catalog cat v q s =
     (case map_of (filters s) cat of
        None \<Rightarrow> s
      | Some valid \<Rightarrow>
          if v \<notin> set valid then s
          else
            (let af = AList.update cat (toggleValue v (selected (activeFilters s) cat))
                        (activeFilters s)
             in s\<lparr>projects := filterProjects catalog af q,
                  queryString := encode af,
                  activeFilters := af\<rparr>))"

text \<open>Modelled from the spec: the missing action \<open>onSelectTheme\<close> (section 4.1): the
  same toggle for the category "themes".\<close>

definition storeOnSelectTheme ::
  "ProjectInterface list \<Rightarrow> string \<Rightarrow> string \<Rightarrow> ProjectState \<Rightarrow> ProjectState" where
  "storeOnSelectTheme catalog v q s = storeToggleFilter catalog ''themes'' v q s"

text \<open>Modelled from the spec: the missing action \<open>onFilterProject\<close> (section 4.1): it
  recomputes the filtered projects with the active filters and the given text, and
  leaves the selections alone.\<close>

definition storeOnFilterProject ::
  "ProjectInterface list \<Rightarrow> string \<Rightarrow> ProjectState \<Rightarrow> ProjectState" where
  "storeOnFilterProject catalog t s =
     s\<lparr>projects := filterProjects catalog (activeFilters s) t\<rparr>"

text \<open>The imports of the filter bar, as the specification describes them, for a
  configuration and a catalog; the themes are shown as buttons (line 394 closes a
  button as a theme), the status as checkboxes.\<close>

definition specImports :: "FiltersProps \<Rightarrow> ProjectInterface list \<Rightarrow> Imports" where
  "specImports cfg catalog =
     \<lparr>toggleFilter = storeToggleFilter catalog,
      onSelectTheme = storeOnSelectTheme catalog,
      onFilterProject = storeOnFilterProject catalog,
      queryStringToObject = decode cfg,
      projectsData = catalog,
      FilterTypeMapping = map_of [(''themes'', Button), (''status'', Checkbox)],
      FilterLabelMapping = map_of [(''themes'', ''Themes selected''), (''status'', ''Status'')]\<rparr>"

subsection \<open>An example\<close>

text \<open>The catalog of the example of section 8 of the specification, with a
  configuration of two categories.\<close>

definition zkit :: ProjectInterface where
  "zkit = \<lparr>id' = ''zkit'', image' = None, name = ''ZKit'', tldr = ''A toolkit'',
            tags = Some [(''themes'', [''build'']), (''status'', [''active''])],
            links = None\<rparr>"

definition proofs101 :: ProjectInterface where
  "proofs101 = \<lparr>id' = ''proofs101'', image' = None, name = ''Proofs101'',
                 tldr = ''An introduction'',
                 tags = Some [(''themes'', [''research'']), (''status'', [''archived''])],
                 links = None\<rparr>"

definition exCatalog :: "ProjectInterface list" where
  "exCatalog = [zkit, proofs101]"

definition exFilters :: FiltersProps where
  "exFilters =
     [(''themes'', [''build'', ''play'', ''research'']), (''status'', [''active'', ''archived''])]"

definition exStore :: ProjectState where
  "exStore = \<lparr>projects = exCatalog, queryString = [], filters = exFilters,
               activeFilters = []\<rparr>"

definition exImports :: Imports where
  "exImports = specImports exFilters exCatalog"

text \<open>The example of section 8: two themes and one status are selected, then a search
  text is typed.\<close>

definition exEvents :: "event list" where
  "exEvents =
     [ClickTheme ''build'', ClickTheme ''research'', ClickCheckbox ''status'' ''active'',
      ChangeInput ''kit'']"

definition exBar :: FiltersBar where
  "exBar = run exImports exEvents (mount exImports [] exStore)"


text \<open>A project whose theme is not one of the three of \<open>ThemesButtonMapping\<close>.\<close>

definition zkProject :: ProjectInterface where
  "zkProject = \<lparr>id' = ''zk'', image' = None, name = ''ZK'', tldr = ''Zero knowledge'',
                 tags = Some [(''themes'', [''zk''])], links = None\<rparr>"

text \<open>A catalog with that project, and the store and the mounted filter bar for it:
  the themes on offer are those of the catalog.\<close>

definition zkCatalog :: "ProjectInterface list" where
  "zkCatalog = [zkit, zkProject]"

definition zkFilters :: FiltersProps where
  "zkFilters = [(''themes'', [''build'', ''zk'']), (''status'', [''active''])]"

definition zkStore :: ProjectState where
  "zkStore = \<lparr>projects = zkCatalog, queryString = [], filters = zkFilters,
               activeFilters = []\<rparr>"

definition zkImports :: Imports where
  "zkImports = specImports zkFilters zkCatalog"

definition zkBar :: FiltersBar where
  "zkBar = mount zkImports [] zkStore"

section \<open>Properties of the store of the specification\<close>

subsection \<open>Filtering\<close>

lemma startsWith_iff: "startsWith s t \<longleftrightarrow> (\<exists>suf. s = t @ suf)"
  by (induction s t rule: startsWith.induct) auto

lemma includesStr_iff: "includesStr s t \<longleftrightarrow> (\<exists>pre suf. s = pre @ t @ suf)"
proof (induction s)
  case Nil
  then show ?case by simp
next
  case (Cons x s)
  have "(\<exists>pre suf. x # s = pre @ t @ suf) \<longleftrightarrow>
        (\<exists>suf. x # s = t @ suf) \<or> (\<exists>pre suf. s = pre @ t @ suf)"
    by (auto simp: Cons_eq_append_conv)
  with Cons show ?case by (simp add: startsWith_iff del: startsWith.simps)
qed

lemma matchesFilters_iff:
  "matchesFilters p af \<longleftrightarrow>
     (\<forall>(cat, sel) \<in> set af. sel \<noteq> [] \<longrightarrow> set (tagsOf p cat) \<inter> set sel \<noteq> {})"
  by (auto simp: matchesFilters_def list_all_iff list_ex_iff)

lemma matchesSearch_iff:
  "matchesSearch p t \<longleftrightarrow>
     (t \<noteq> [] \<longrightarrow> (\<exists>pre suf. toLowerCase (name p) = pre @ toLowerCase t @ suf)
               \<or> (\<exists>pre suf. toLowerCase (tldr p) = pre @ toLowerCase t @ suf))"
  by (auto simp: matchesSearch_def includesStr_iff)

text \<open>
  Claim C1: a project \<open>P\<close> is in the filtered result for the selections \<open>F\<close> and the
  search term \<open>t\<close> if and only if it is in the catalog, for every category of \<open>F\<close>
  with at least one selected value the tags of \<open>P\<close> for the category meet the selected
  values, and, when \<open>t\<close> is not empty, the lower-cased \<open>t\<close> occurs as a substring in the
  lower-cased name or in the lower-cased summary of \<open>P\<close>.
\<close>

theorem filterProjects_iff:
  "P \<in> set (filterProjects catalog F t) \<longleftrightarrow>
     P \<in> set catalog
     \<and> (\<forall>(cat, sel) \<in> set F. sel \<noteq> [] \<longrightarrow> set (tagsOf P cat) \<inter> set sel \<noteq> {})
     \<and> (t \<noteq> [] \<longrightarrow> (\<exists>pre suf. toLowerCase (name P) = pre @ toLowerCase t @ suf)
                 \<or> (\<exists>pre suf. toLowerCase (tldr P) = pre @ toLowerCase t @ suf))"
  unfolding filterProjects_def
  by (simp only: set_filter mem_Collect_eq matchesFilters_iff matchesSearch_iff)

lemma exCatalog_tags:
  "tagsOf proofs101 ''themes'' = [''research''] \<and> tagsOf zkit ''themes'' = [''build'']
   \<and> proofs101 \<in> set exCatalog \<and> zkit \<in> set exCatalog"
  by code_simp

lemma zkit_name: "toLowerCase (name zkit) = ''zkit'' \<and> toLowerCase ''KIT'' = ''kit''"
  by code_simp

theorem filterProjects_iff_witness:
  "proofs101 \<in> set (filterProjects exCatalog [(''themes'', [''research''])] [])
   \<and> zkit \<notin> set (filterProjects exCatalog [(''themes'', [''research''])] [])
   \<and> zkit \<in> set (filterProjects exCatalog [] ''KIT'')"
proof -
  have "proofs101 \<in> set (filterProjects exCatalog [(''themes'', [''research''])] [])"
    using filterProjects_iff [of proofs101 exCatalog "[(''themes'', [''research''])]" "[]"]
      exCatalog_tags
    by simp
  moreover have "zkit \<notin> set (filterProjects exCatalog [(''themes'', [''research''])] [])"
    using filterProjects_iff [of zkit exCatalog "[(''themes'', [''research''])]" "[]"]
      exCatalog_tags
    by simp
  moreover have "zkit \<in> set (filterProjects exCatalog [] ''KIT'')"
  proof -
    have "\<exists>pre suf. toLowerCase (name zkit) = pre @ toLowerCase ''KIT'' @ suf"
    proof (intro exI)
      show "toLowerCase (name zkit) = ''z'' @ toLowerCase ''KIT'' @ []"
        using zkit_name by simp
    qed
    then show ?thesis
      using filterProjects_iff [of zkit exCatalog "[]" "''KIT''"] exCatalog_tags
      by simp
  qed
  ultimately show ?thesis by simp
qed

subsection \<open>Toggling\<close>

lemma set_toggleValue_twice: "set (toggleValue v (toggleValue v xs)) = set xs"
  by (auto simp: toggleValue_def)

lemma toggleValue_flips: "v \<in> set (toggleValue v xs) \<longleftrightarrow> v \<notin> set xs"
  by (auto simp: toggleValue_def)

lemma selected_update:
  "selected (AList.update k vs af) c = (if c = k then vs else selected af c)"
  by (simp add: selected_def update_conv')

lemma selection_update: "selection (AList.update k vs af) = (selection af)(k := set vs)"
  by (rule ext) (simp add: selection_def selected_update)

lemma filters_storeToggleFilter: "filters (storeToggleFilter catalog cat v q s) = filters s"
  by (simp add: storeToggleFilter_def Let_def split: option.splits)

text \<open>
  Claim C4: \<open>toggleFilter\<close> with the same category, value and search text, twice in
  succession, returns the selection state (the set of selected values of every
  category) to what it was; and for a category and a value of the configuration, one
  toggle flips the membership of the value in the category's selection: an absent
  value is added, a present one removed.
\<close>

theorem toggleFilter_twice:
  "selection (activeFilters (storeToggleFilter catalog cat v q
       (storeToggleFilter catalog cat v q s))) = selection (activeFilters s)
   \<and> (map_of (filters s) cat = Some valid \<and> v \<in> set valid \<longrightarrow>
        (v \<in> selection (activeFilters (storeToggleFilter catalog cat v q s)) cat)
          = (v \<notin> selection (activeFilters s) cat))"
proof (cases "map_of (filters s) cat")
  case None
  then show ?thesis by (simp add: storeToggleFilter_def)
next
  case (Some vs)
  show ?thesis
  proof (cases "v \<in> set vs")
    case False
    with Some show ?thesis by (auto simp add: storeToggleFilter_def)
  next
    case True
    define af1 where
      "af1 = AList.update cat (toggleValue v (selected (activeFilters s) cat))
               (activeFilters s)"
    have a1: "activeFilters (storeToggleFilter catalog cat v q s) = af1"
      using Some True by (simp add: storeToggleFilter_def Let_def af1_def)
    have a2: "activeFilters (storeToggleFilter catalog cat v q
                 (storeToggleFilter catalog cat v q s))
              = AList.update cat (toggleValue v (selected af1 cat)) af1"
      using Some True a1 filters_storeToggleFilter [of catalog cat v q s]
      by (simp add: storeToggleFilter_def
            [of catalog cat v q "storeToggleFilter catalog cat v q s"] Let_def)
    have "selection (AList.update cat (toggleValue v (selected af1 cat)) af1)
          = selection (activeFilters s)"
      by (rule ext)
        (simp add: af1_def selection_update selected_update set_toggleValue_twice
          selection_def)
    moreover have "(v \<in> selection af1 cat) = (v \<notin> selection (activeFilters s) cat)"
      by (simp add: af1_def selection_update toggleValue_flips selection_def)
    ultimately show ?thesis by (simp add: a1 a2)
  qed
qed

lemma exStore_themes:
  "map_of (filters exStore) ''themes'' = Some [''build'', ''play'', ''research'']
   \<and> selection (activeFilters exStore) ''themes'' = {}"
  by (simp add: exStore_def exFilters_def selection_def selected_def)

theorem toggleFilter_twice_witness:
  "selection (activeFilters (storeToggleFilter exCatalog ''themes'' ''build'' []
       (storeToggleFilter exCatalog ''themes'' ''build'' [] exStore)))
     = selection (activeFilters exStore)
   \<and> ''build'' \<in> selection
        (activeFilters (storeToggleFilter exCatalog ''themes'' ''build'' [] exStore))
        ''themes''"
  using toggleFilter_twice [of exCatalog "''themes''" "''build''" "[]" exStore
      "[''build'', ''play'', ''research'']"] exStore_themes
  by simp

section \<open>Properties of the project card\<close>

lemma themeTag_known:
  "themeTag ''build'' = Inr \<lparr>tagIcon = Some ''hammer'', tagText = ''Build''\<rparr>"
  by code_simp

lemma themeTag_inherited:
  "themeTag ''constructor'' = Inr \<lparr>tagIcon = None, tagText = ''constructor''\<rparr>
   \<and> themeTag ''__proto__'' = Inl InvalidChild"
  by code_simp

text \<open>
  Claim C2: no operation fails visibly; in particular rendering a project whose theme
  tag is not one of the statically known themes is a no-op rather than an error.
  The card does fail there: for the project \<open>zkProject\<close>, whose only theme is "zk",
  rendering throws a \<open>TypeError\<close>, whatever the card is asked to show.
\<close>

theorem ProjectCard_unknown_theme_throws:
  "ProjectCard zkProject showLinks showBanner = Inl TypeError"
  by (simp add: ProjectCard_def zkProject_def themeTag_def ThemesButtonMapping_def
      ThemesButtonEntries_def getProperty_def objectPrototypeFunctions_def)

section \<open>Properties of the filter bar\<close>

subsection \<open>What effects leave alone\<close>

lemma store_effects: "store (effects old new) = store new"
  by (simp add: effects_def urlEffect_def countEffect_def debounceEffect_def Let_def)

lemma searchQuery_effects: "searchQuery (effects old new) = searchQuery new"
  by (simp add: effects_def urlEffect_def countEffect_def debounceEffect_def Let_def)

lemma exImports_projectsData: "projectsData exImports = exCatalog"
  by (simp add: exImports_def specImports_def)

lemma exBar_enabled: "\<not> clearAllDisabled exBar"
  by code_simp

subsection \<open>Clearing\<close>

lemma effects_same: "effects c c = c"
  by (simp add: effects_def)

lemma step_ClickClearAll:
  "step env ClickClearAll c = (if clearAllDisabled c then c else clearAll env c)"
  by (simp add: step_def clearAll_def effects_same)

lemma exBar_cleared:
  "queryString (store (clearAll exImports exBar)) = []
   \<and> activeFilters (store (clearAll exImports exBar)) = []
   \<and> projects (store (clearAll exImports exBar)) = exCatalog"
  by code_simp

text \<open>
  Claim C5: from every state, the clear-all operation (the handler \<open>clearAllFilters\<close>
  and the effects of the render that follows it) yields a store with empty filter
  selections, the full catalog as the filtered result and an empty query string; a
  click on a "Clear all" control is that operation when the control is enabled, and
  nothing when it is disabled.
\<close>

theorem clearAll_resets_store:
  "activeFilters (store (clearAll env c)) = []
   \<and> projects (store (clearAll env c)) = projectsData env
   \<and> queryString (store (clearAll env c)) = []
   \<and> step env ClickClearAll c = (if clearAllDisabled c then c else clearAll env c)"
  by (simp add: store_effects clearAllFilters_def clearAll_def step_ClickClearAll)

theorem clearAll_resets_store_witness:
  "activeFilters (store (step exImports ClickClearAll exBar)) = []
   \<and> projects (store (step exImports ClickClearAll exBar)) = exCatalog
   \<and> queryString (store (step exImports ClickClearAll exBar)) = []"
  using clearAll_resets_store [of exImports exBar] exBar_enabled exImports_projectsData
  by simp

lemma trace_step_Elapse:
  "trace (step env (Elapse d) c) =
     trace c @ (case timer c of
                  None \<Rightarrow> []
                | Some r \<Rightarrow> if d < r then [] else [Fired (clock c + r) (searchQuery c)])"
  by (simp add: step_def effects_def urlEffect_def countEffect_def debounceEffect_def
      elapse_def Let_def split: option.splits)

lemma store_step_Elapse:
  "store (step env (Elapse d) c) =
     (case timer c of
        None \<Rightarrow> store c
      | Some r \<Rightarrow> if d < r then store c else onFilterProject env (searchQuery c) (store c))"
  by (simp add: step_def store_effects elapse_def split: option.splits)

lemma clearAll_local:
  "searchQuery (clearAll env c) = []
   \<and> history (clearAll env c) = history c @ [''/projects'']
   \<and> timer (clearAll env c) = (if searchQuery c = [] then timer c else Some 500)"
  by (auto simp add: clearAll_def effects_def urlEffect_def countEffect_def
      debounceEffect_def clearAllFilters_def Let_def)

text \<open>
  Claim C10: the clear-all operation also empties the local search text and pushes the
  bare URL "/projects"; when the search text was not empty it arms the debounce timer
  anew, otherwise it leaves the timer as it is; and when time passes afterwards, the
  debounced callback, if it is due, is \<open>onFilterProject\<close> with the empty search term.
\<close>

theorem clearAll_resets_search:
  "searchQuery (clearAll env c) = []
   \<and> history (clearAll env c) = history c @ [''/projects'']
   \<and> timer (clearAll env c) = (if searchQuery c = [] then timer c else Some 500)
   \<and> trace (step env (Elapse d) (clearAll env c)) =
       trace (clearAll env c)
       @ (case timer (clearAll env c) of
            None \<Rightarrow> []
          | Some r \<Rightarrow> if d < r then [] else [Fired (clock (clearAll env c) + r) []])
   \<and> store (step env (Elapse d) (clearAll env c)) =
       (case timer (clearAll env c) of
          None \<Rightarrow> store (clearAll env c)
        | Some r \<Rightarrow> if d < r then store (clearAll env c)
                    else onFilterProject env [] (store (clearAll env c)))"
proof -
  have sq: "searchQuery (clearAll env c) = []"
    using clearAll_local [of env c] by simp
  show ?thesis
    using clearAll_local [of env c] trace_step_Elapse [of env d "clearAll env c"]
      store_step_Elapse [of env d "clearAll env c"]
    unfolding sq by simp
qed

lemma exBar_local:
  "searchQuery exBar = ''kit'' \<and> clock (clearAll exImports exBar) = 0
   \<and> trace (clearAll exImports exBar) = [Pending 0 [], Pending 0 ''kit'', Pending 0 []]"
  by code_simp

theorem clearAll_resets_search_witness:
  "searchQuery (clearAll exImports exBar) = []
   \<and> timer (clearAll exImports exBar) = Some 500
   \<and> trace (step exImports (Elapse 500) (clearAll exImports exBar)) =
       [Pending 0 [], Pending 0 ''kit'', Pending 0 [], Fired 500 []]"
  using clearAll_resets_search [of exImports exBar 500] exBar_local
  by simp

subsection \<open>Events whose render throws\<close>

lemma commit_Inr: "commit env old new = Inr c' \<Longrightarrow> c' = effects old new"
  by (auto simp: commit_def split: sum.splits)

lemma commit_Inl: "commit env old new = Inl (err, c') \<Longrightarrow> c' = new \<and> render env new = Inl err"
  by (auto simp: commit_def split: sum.splits)

lemma stepE_Inr: "stepE env e c = Inr c' \<Longrightarrow> c' = step env e c"
  by (simp add: stepE_def step_def commit_Inr)

lemma stepE_Inl: "stepE env e c = Inl (err, c') \<Longrightarrow> c' = handle env e c"
  by (simp add: stepE_def commit_Inl)





subsection \<open>The URL\<close>

text \<open>When the render after an event succeeds, the store is the one the handler left
  and the URLs pushed are: "/projects" for a click on an enabled "Clear all", and then,
  when the query string changed and is not empty, "/projects?" with the new query
  string. When the render throws, the effect that pushes does not run: what is left
  is the state of the handler.\<close>

lemma url_pushed_when_committed:
  assumes "stepE env e c = Inr c'"
  shows "store c' = store (handle env e c)
       \<and> history c' =
           history c
           @ (if e = ClickClearAll \<and> \<not> clearAllDisabled c then [''/projects''] else [])
           @ (if queryString (store c') \<noteq> queryString (store c) \<and> queryString (store c') \<noteq> []
              then [''/projects?'' @ queryString (store c')] else [])"
proof -
  have c': "c' = step env e c"
    using assms by (rule stepE_Inr)
  show ?thesis
    unfolding c'
    by (cases e) (auto simp: step_def effects_def urlEffect_def countEffect_def
        debounceEffect_def clearAllFilters_def elapse_def Let_def split: option.splits)
qed

lemma zkBar_mounted:
  "mountE zkImports [] zkStore = Inr zkBar \<and> queryString (store zkBar) = []
   \<and> history zkBar = []"
  by code_simp


subsection \<open>Hydration\<close>

lemma step_decoder: "step (env\<lparr>queryStringToObject := f\<rparr>) e c = step env e c"
  by (cases e) (simp_all add: step_def clearAllFilters_def elapse_def split: option.splits)

lemma run_decoder: "run (env\<lparr>queryStringToObject := f\<rparr>) es c = run env es c"
  by (induction es arbitrary: c) (simp_all add: step_decoder)

text \<open>
  Claim C8: mounting replaces the active filters of the store by the decoding of the
  URL's query parameters and leaves the rest of the store, the query string among it,
  as it was; and no later event decodes anything: after the mount the component
  behaves the same whatever the decoder is.
\<close>

theorem hydrate_once:
  "store (mount env sp s) = s\<lparr>activeFilters := queryStringToObject env sp\<rparr>
   \<and> queryString (store (mount env sp s)) = queryString s
   \<and> run (env\<lparr>queryStringToObject := f\<rparr>) es (mount env sp s) =
       run env es (mount env sp s)"
  by (simp add: run_decoder mount_def store_effects hydrateEffect_def urlEffect_def
      countEffect_def debounceEffect_def initialBar_def Let_def)

lemma exImports_decode:
  "queryStringToObject exImports ''themes=play&status=archived&page=2'' =
     [(''themes'', [''play'']), (''status'', [''archived''])]"
  by code_simp

theorem hydrate_once_witness:
  "activeFilters (store (mount exImports ''themes=play&status=archived&page=2'' exStore)) =
     [(''themes'', [''play'']), (''status'', [''archived''])]
   \<and> queryString (store (mount exImports ''themes=play&status=archived&page=2'' exStore)) = []"
  using hydrate_once [of exImports "''themes=play&status=archived&page=2''" exStore]
    exImports_decode
  by (simp add: exStore_def)

subsection \<open>The filter count\<close>

lemma countFilters_foldl:
  "foldl (\<lambda>acc curr. acc + length curr) n xs = n + sum_list (map length xs)"
  by (induction xs arbitrary: n) auto

lemma countFilters_sum: "countFilters af = (\<Sum>kv\<leftarrow>af. length (snd kv))"
  by (simp add: countFilters_def countFilters_foldl comp_def)

lemma filterCount_handle: "filterCount (handle env e c) = filterCount c"
  by (cases e) (auto simp: clearAllFilters_def elapse_def split: option.splits)

lemma count_effects:
  assumes "filterCount new = filterCount old"
    and "filterCount old = countFilters (activeFilters (store old))"
  shows "filterCount (effects old new) = countFilters (activeFilters (store (effects old new)))"
  using assms
  by (simp add: effects_def urlEffect_def countEffect_def debounceEffect_def Let_def)

lemma count_step:
  "filterCount c = countFilters (activeFilters (store c)) \<Longrightarrow>
   filterCount (step env e c) = countFilters (activeFilters (store (step env e c)))"
  unfolding step_def by (rule count_effects) (simp_all add: filterCount_handle)

lemma count_mount:
  "filterCount (mount env sp s) = countFilters (activeFilters (store (mount env sp s)))"
  by (simp add: mount_def effects_def urlEffect_def countEffect_def debounceEffect_def
      hydrateEffect_def initialBar_def Let_def)

lemma count_run:
  "filterCount c = countFilters (activeFilters (store c)) \<Longrightarrow>
   filterCount (run env es c) = countFilters (activeFilters (store (run env es c)))"
  by (induction es arbitrary: c) (simp_all add: count_step)

lemma filterCount_ChangeInput: "filterCount (step env (ChangeInput t) c) = filterCount c"
  by (simp add: step_def effects_def urlEffect_def countEffect_def debounceEffect_def Let_def)

text \<open>
  Claim C9: in every state the component reaches from its mount, the displayed filter
  count is the sum over the categories of the number of selected values; a change of
  the search text does not change it; and the "Clear all" controls are disabled exactly
  when the count is zero and the search text is empty.
\<close>

theorem filterCount_is_sum:
  "filterCount (run env es (mount env sp s)) =
     (\<Sum>kv\<leftarrow>activeFilters (store (run env es (mount env sp s))). length (snd kv))
   \<and> clearAllDisabled (run env es (mount env sp s)) =
       (filterCount (run env es (mount env sp s)) = 0
        \<and> searchQuery (run env es (mount env sp s)) = [])
   \<and> filterCount (step env (ChangeInput t) (run env es (mount env sp s))) =
       filterCount (run env es (mount env sp s))"
proof -
  have "filterCount (run env es (mount env sp s)) =
     countFilters (activeFilters (store (run env es (mount env sp s))))"
    by (rule count_run) (rule count_mount)
  moreover have "clearAllDisabled c = (filterCount c = 0 \<and> searchQuery c = [])" for c
    by (simp add: clearAllDisabled_def hasActiveFilters_def)
  ultimately show ?thesis
    by (simp add: filterCount_ChangeInput countFilters_sum)
qed

lemma exBar_activeFilters:
  "activeFilters (store exBar) =
     [(''themes'', [''build'', ''research'']), (''status'', [''active''])]"
  by code_simp

theorem filterCount_is_sum_witness:
  "filterCount exBar = 3
   \<and> filterCount (step exImports (ChangeInput ''proofs'') exBar) = 3"
  using filterCount_is_sum [of exImports exEvents "[]" exStore "''proofs''"]
    exBar_activeFilters
  by (simp add: exBar_def [symmetric])

subsection \<open>The debounced search\<close>













end
